theory Spec2Isabelle
  imports Main
begin

section \<open>Data model\<close>

text \<open>
  The serializers of \<^verbatim>\<open>cinema/serializers.py\<close> read and write the Django models
  \<^verbatim>\<open>CinemaHall\<close>, \<^verbatim>\<open>MovieSession\<close>, \<^verbatim>\<open>Ticket\<close> and \<^verbatim>\<open>Order\<close>. Only the
  fields the serializers touch are kept. Python integers are unbounded, so \<^verbatim>\<open>row\<close>,
  \<^verbatim>\<open>seat\<close>, \<^verbatim>\<open>rows\<close> and \<^verbatim>\<open>seats_in_row\<close> are of type \<^typ>\<open>int\<close>; primary keys are
  natural numbers.
\<close>

record CinemaHall =
  rows :: int
  seats_in_row :: int

record MovieSession =
  session_pk :: nat
  cinema_hall :: CinemaHall

text \<open>
  A row of the ticket table. The foreign keys \<^verbatim>\<open>movie_session\<close> and \<^verbatim>\<open>order\<close>
  are stored as the primary key of the row they point to.
\<close>

record Ticket =
  ticket_pk :: nat
  ticket_row :: int
  ticket_seat :: int
  ticket_movie_session :: nat
  ticket_order :: nat

record Order =
  order_pk :: nat
  created_at :: nat

text \<open>
  The persisted state: the three tables the serializers query
  (\<^verbatim>\<open>MovieSession.objects\<close>, \<^verbatim>\<open>Order.objects\<close>, \<^verbatim>\<open>Ticket.objects\<close>), each a list of
  rows in insertion order.
\<close>

record db =
  sessions :: "MovieSession list"
  orders :: "Order list"
  tickets :: "Ticket list"

text \<open>
  The dictionary \<^verbatim>\<open>attrs\<close> that \<^verbatim>\<open>validate\<close> receives: the keys \<^verbatim>\<open>"row"\<close>,
  \<^verbatim>\<open>"seat"\<close> and \<^verbatim>\<open>"movie_session"\<close>, the last one already resolved to a
  \<^verbatim>\<open>MovieSession\<close> object.
\<close>

record attrs =
  row :: int
  seat :: int
  movie_session :: MovieSession

text \<open>
  \<^verbatim>\<open>serializers.ValidationError\<close> is raised by \<^verbatim>\<open>validate\<close> either with a
  dictionary of one field and its message, or with a bare message. The third
  constructor is the failure of the field
  \<^verbatim>\<open>PrimaryKeyRelatedField(queryset=MovieSession.objects.all())\<close> (lines 117 to 119)
  on a primary key that no session has; the specification calls it
  \<^verbatim>\<open>SessionNotFound\<close>.
\<close>

datatype ValidationError =
  FieldError string string
  | NonFieldError string
  | SessionNotFound nat

abbreviation OutOfRange_row :: ValidationError where
  "OutOfRange_row \<equiv> FieldError ''row'' ''Row number out of range.''"

abbreviation OutOfRange_seat :: ValidationError where
  "OutOfRange_seat \<equiv> FieldError ''seat'' ''Seat number out of range.''"

abbreviation SeatTaken :: ValidationError where
  "SeatTaken \<equiv> NonFieldError ''This seat is already taken.''"

section \<open>Queries\<close>

text \<open>
  \<^verbatim>\<open>Ticket.objects.filter(movie_session=s, row=r, seat=c).exists()\<close>: some persisted
  ticket matches all three columns; the session is compared by primary key.
\<close>

definition Ticket_objects_filter_exists :: "db \<Rightarrow> MovieSession \<Rightarrow> int \<Rightarrow> int \<Rightarrow> bool" where
  "Ticket_objects_filter_exists d s r c =
     list_ex (\<lambda>t. ticket_movie_session t = session_pk s \<and> ticket_row t = r \<and> ticket_seat t = c)
       (tickets d)"

text \<open>
  \<^verbatim>\<open>obj.tickets\<close>: the reverse relation of the foreign key \<^verbatim>\<open>Ticket.movie_session\<close>,
  the persisted tickets of the session \<^verbatim>\<open>obj\<close>.
\<close>

definition obj_tickets :: "db \<Rightarrow> MovieSession \<Rightarrow> Ticket list" where
  "obj_tickets d obj = filter (\<lambda>t. ticket_movie_session t = session_pk obj) (tickets d)"

section \<open>Ticket validation\<close>

text \<open>
  \<^verbatim>\<open>TicketListSerializer.validate\<close> (lines 92 to 113), as a function of an
  \<^verbatim>\<open>attrs\<close> dictionary that holds all three keys.
\<close>

definition TicketListSerializer_validate :: "db \<Rightarrow> attrs \<Rightarrow> ValidationError + attrs" where
  "TicketListSerializer_validate d a =
     (if \<not> (1 \<le> row a \<and> row a \<le> rows (cinema_hall (movie_session a)))
      then Inl (FieldError ''row'' ''Row number out of range.'')
      else if \<not> (1 \<le> seat a \<and> seat a \<le> seats_in_row (cinema_hall (movie_session a)))
      then Inl (FieldError ''seat'' ''Seat number out of range.'')
      else if Ticket_objects_filter_exists d (movie_session a) (row a) (seat a)
      then Inl (NonFieldError ''This seat is already taken.'')
      else Inr a)"

text \<open>\<^verbatim>\<open>TicketCreateSerializer.validate\<close> (lines 125 to 144).\<close>

definition TicketCreateSerializer_validate :: "db \<Rightarrow> attrs \<Rightarrow> ValidationError + attrs" where
  "TicketCreateSerializer_validate d a =
     (if \<not> (1 \<le> row a \<and> row a \<le> rows (cinema_hall (movie_session a)))
      then Inl (FieldError ''row'' ''Row number out of range.'')
      else if \<not> (1 \<le> seat a \<and> seat a \<le> seats_in_row (cinema_hall (movie_session a)))
      then Inl (FieldError ''seat'' ''Seat number out of range.'')
      else if Ticket_objects_filter_exists d (movie_session a) (row a) (seat a)
      then Inl (NonFieldError ''This seat is already taken.'')
      else Inr a)"

section \<open>Derived reads of a session\<close>

text \<open>
  Modelled from the spec: the property \<^verbatim>\<open>CinemaHall.capacity\<close> is declared in
  \<^verbatim>\<open>cinema/models.py\<close>, which is not among the sources; section 3 of the
  specification gives it as rows times seats per row.
\<close>

definition capacity :: "CinemaHall \<Rightarrow> int" where
  "capacity h = rows h * seats_in_row h"

text \<open>\<^verbatim>\<open>MovieSessionListSerializer.get_tickets_available\<close> (lines 79 to 82).\<close>

definition get_tickets_available :: "db \<Rightarrow> MovieSession \<Rightarrow> int" where
  "get_tickets_available d obj =
     (let total_capacity = capacity (cinema_hall obj);
          taken_tickets_count = int (length (obj_tickets d obj))
      in total_capacity - taken_tickets_count)"

text \<open>
  \<^verbatim>\<open>MovieSessionDetailSerializer.get_taken_places\<close> (lines 156 to 157):
  \<^verbatim>\<open>obj.tickets.values("row", "seat")\<close> yields one \<^verbatim>\<open>{row, seat}\<close> dictionary per
  ticket of the session, here a pair. The pairs come in the order of the table; the
  order of the real query is fixed by the model's declaration and plays no part below.
\<close>

definition get_taken_places :: "db \<Rightarrow> MovieSession \<Rightarrow> (int \<times> int) list" where
  "get_taken_places d obj = map (\<lambda>t. (ticket_row t, ticket_seat t)) (obj_tickets d obj)"

section \<open>Writes\<close>

text \<open>
  The storage layer assigns a primary key that no row of the table has yet.
\<close>

definition fresh_pk :: "nat list \<Rightarrow> nat" where
  "fresh_pk ks = Suc (foldr max ks 0)"

text \<open>
  \<^verbatim>\<open>Order.objects.create(**validated_data)\<close>: once \<^verbatim>\<open>"tickets"\<close> is popped no
  writable field of the order is left (\<^verbatim>\<open>id\<close> and \<^verbatim>\<open>created_at\<close> are filled in by
  the storage layer, the latter with the current time \<open>now\<close>). The row is appended to
  the order table and returned.
\<close>

definition Order_objects_create :: "nat \<Rightarrow> db \<Rightarrow> db \<times> Order" where
  "Order_objects_create now d =
     (let order = \<lparr>order_pk = fresh_pk (map order_pk (orders d)), created_at = now\<rparr>
      in (d\<lparr>orders := orders d @ [order]\<rparr>, order))"

text \<open>
  The integrity constraints of the ticket table are declared in \<^verbatim>\<open>cinema/models.py\<close>,
  which is not among the sources, so a write takes them as a parameter:
  \<open>accepts existing t\<close> tells whether the storage layer accepts the new row \<open>t\<close>
  beside the rows \<open>existing\<close>. A rejected write raises.
\<close>

type_synonym constraint = "Ticket list \<Rightarrow> Ticket \<Rightarrow> bool"

datatype StorageError = IntegrityError

text \<open>A ticket table with no constraint at all accepts every row.\<close>

definition no_constraint :: constraint where
  "no_constraint existing t = True"

text \<open>
  Modelled from the spec: the uniqueness constraint on (session, row, seat) that
  section 5 of the specification places at the storage layer; its declaration would be
  in \<^verbatim>\<open>cinema/models.py\<close>, which is not among the sources.
\<close>

definition unique_seat :: constraint where
  "unique_seat existing t =
     (\<not> list_ex (\<lambda>u. ticket_movie_session u = ticket_movie_session t
                       \<and> ticket_row u = ticket_row t \<and> ticket_seat u = ticket_seat t) existing)"

text \<open>
  \<^verbatim>\<open>Ticket.objects.create(order=order, **ticket_data)\<close>: the new row takes its
  row, seat and session from \<^verbatim>\<open>ticket_data\<close> and points to \<^verbatim>\<open>order\<close>. It is
  appended to the ticket table when the storage layer accepts it; \<open>None\<close> is the
  exception of a rejected write.
\<close>

definition Ticket_objects_create :: "constraint \<Rightarrow> db \<Rightarrow> Order \<Rightarrow> attrs \<Rightarrow> db option" where
  "Ticket_objects_create accepts d order ticket_data =
     (let t = \<lparr>ticket_pk = fresh_pk (map ticket_pk (tickets d)),
                ticket_row = row ticket_data,
                ticket_seat = seat ticket_data,
                ticket_movie_session = session_pk (movie_session ticket_data),
                ticket_order = order_pk order\<rparr>
      in if accepts (tickets d) t then Some (d\<lparr>tickets := tickets d @ [t]\<rparr>) else None)"

text \<open>
  The loop of \<^verbatim>\<open>OrderCreateSerializer.create\<close> (lines 178 to 179). An exception
  leaves the loop at once. The method opens no transaction (the file never mentions
  one), and without one every write is committed as it is made: the writes made before
  the exception stay, and the state is returned together with the outcome.
\<close>

fun create_tickets :: "constraint \<Rightarrow> db \<Rightarrow> Order \<Rightarrow> attrs list \<Rightarrow> db \<times> (StorageError + unit)" where
  "create_tickets accepts d order [] = (d, Inr ())"
| "create_tickets accepts d order (ticket_data # tickets_data) =
     (case Ticket_objects_create accepts d order ticket_data of
        None \<Rightarrow> (d, Inl IntegrityError)
      | Some d' \<Rightarrow> create_tickets accepts d' order tickets_data)"

text \<open>
  \<^verbatim>\<open>OrderCreateSerializer.create\<close> (lines 175 to 180). \<^verbatim>\<open>validated_data\<close> holds
  the key \<^verbatim>\<open>"tickets"\<close> only, so it is passed as the list \<open>tickets_data\<close>.
\<close>

definition create :: "constraint \<Rightarrow> nat \<Rightarrow> db \<Rightarrow> attrs list \<Rightarrow> db \<times> (StorageError + Order)" where
  "create accepts now d tickets_data =
     (let (d1, order) = Order_objects_create now d
      in case create_tickets accepts d1 order tickets_data of
           (d2, Inl e) \<Rightarrow> (d2, Inl e)
         | (d2, Inr u) \<Rightarrow> (d2, Inr order))"

section \<open>Order creation request\<close>

text \<open>
  One item of the incoming \<^verbatim>\<open>"tickets"\<close> list: row, seat and the primary key of a
  movie session.
\<close>

record ticket_request =
  req_row :: int
  req_seat :: int
  req_movie_session :: nat

text \<open>
  The field \<^verbatim>\<open>movie_session\<close> of \<^verbatim>\<open>TicketCreateSerializer\<close> (lines 117 to 119)
  resolves the primary key against \<^verbatim>\<open>MovieSession.objects.all()\<close>.
\<close>

definition to_internal_value :: "db \<Rightarrow> ticket_request \<Rightarrow> ValidationError + attrs" where
  "to_internal_value d rq =
     (case find (\<lambda>s. session_pk s = req_movie_session rq) (sessions d) of
        None \<Rightarrow> Inl (SessionNotFound (req_movie_session rq))
      | Some s \<Rightarrow> Inr \<lparr>row = req_row rq, seat = req_seat rq, movie_session = s\<rparr>)"

text \<open>
  Validation of one item by \<^verbatim>\<open>TicketCreateSerializer\<close>: the fields first, then
  \<^verbatim>\<open>validate\<close> on the resulting \<^verbatim>\<open>attrs\<close>.
\<close>

definition run_validation :: "db \<Rightarrow> ticket_request \<Rightarrow> ValidationError + attrs" where
  "run_validation d rq =
     (case to_internal_value d rq of
        Inl e \<Rightarrow> Inl e
      | Inr a \<Rightarrow> TicketCreateSerializer_validate d a)"

text \<open>
  \<^verbatim>\<open>tickets = TicketCreateSerializer(many=True)\<close> (line 169): every item of the list
  is validated on its own against the persisted state; the list is rejected, with the
  errors of all items, when some item is. The declaration does not set
  \<^verbatim>\<open>allow_empty=False\<close>, so no check on the length of the list is made.
\<close>

definition many_run_validation ::
    "db \<Rightarrow> ticket_request list \<Rightarrow> ValidationError option list + attrs list" where
  "many_run_validation d rqs =
     (let results = map (run_validation d) rqs;
          ret = List.map_filter (case_sum (\<lambda>e. None) Some) results;
          errors = map (case_sum Some (\<lambda>a. None)) results
      in if list_ex (\<lambda>e. e \<noteq> None) errors then Inl errors else Inr ret)"

datatype RequestError =
  Invalid "ValidationError option list"
  | WriteFailed StorageError

text \<open>
  Modelled from the spec: \<^verbatim>\<open>createOrder\<close> of section 4.2. The view that runs
  \<^verbatim>\<open>OrderCreateSerializer\<close> is not among the sources; as the specification has it, the
  whole batch is validated against the persisted state first, and only a valid batch
  reaches \<^verbatim>\<open>create\<close>. A rejected batch writes nothing; the outcome of
  \<^verbatim>\<open>create\<close> is passed on as it is.
\<close>

definition createOrder ::
    "constraint \<Rightarrow> nat \<Rightarrow> db \<Rightarrow> ticket_request list \<Rightarrow> db \<times> (RequestError + Order)" where
  "createOrder accepts now d rqs =
     (case many_run_validation d rqs of
        Inl errors \<Rightarrow> (d, Inl (Invalid errors))
      | Inr validated \<Rightarrow>
          (case create accepts now d validated of
             (d', Inl e) \<Rightarrow> (d', Inl (WriteFailed e))
           | (d', Inr order) \<Rightarrow> (d', Inr order)))"

section \<open>Example data\<close>

text \<open>
  The scenario of the specification: a hall of 10 rows with 15 seats each, one session
  in it, and no order yet.
\<close>

definition hall_10x15 :: CinemaHall where
  "hall_10x15 = \<lparr>rows = 10, seats_in_row = 15\<rparr>"

definition session1 :: MovieSession where
  "session1 = \<lparr>session_pk = 1, cinema_hall = hall_10x15\<rparr>"

definition empty_db :: db where
  "empty_db = \<lparr>sessions = [session1], orders = [], tickets = []\<rparr>"

definition request_at :: "int \<Rightarrow> int \<Rightarrow> ticket_request" where
  "request_at r c = \<lparr>req_row = r, req_seat = c, req_movie_session = 1\<rparr>"

definition attrs_at :: "int \<Rightarrow> int \<Rightarrow> attrs" where
  "attrs_at r c = \<lparr>row = r, seat = c, movie_session = session1\<rparr>"

text \<open>The state with one order that holds the ticket for row 5, seat 5.\<close>

definition one_ticket_db :: db where
  "one_ticket_db =
     \<lparr>sessions = [session1],
      orders = [\<lparr>order_pk = 1, created_at = 0\<rparr>],
      tickets = [\<lparr>ticket_pk = 1, ticket_row = 5, ticket_seat = 5,
                  ticket_movie_session = 1, ticket_order = 1\<rparr>]\<rparr>"

text \<open>The state with one order that holds the tickets for (1, 1) and (2, 2).\<close>

definition two_ticket_db :: db where
  "two_ticket_db =
     \<lparr>sessions = [session1],
      orders = [\<lparr>order_pk = 1, created_at = 0\<rparr>],
      tickets = [\<lparr>ticket_pk = 1, ticket_row = 1, ticket_seat = 1,
                  ticket_movie_session = 1, ticket_order = 1\<rparr>,
                 \<lparr>ticket_pk = 2, ticket_row = 2, ticket_seat = 2,
                  ticket_movie_session = 1, ticket_order = 1\<rparr>]\<rparr>"

text \<open>
  A state whose only ticket lies outside the hall, at row 11 and seat 16 (a row of the
  table that was not written through \<^verbatim>\<open>validate\<close>).
\<close>

definition stray_ticket_db :: db where
  "stray_ticket_db =
     \<lparr>sessions = [session1],
      orders = [\<lparr>order_pk = 1, created_at = 0\<rparr>],
      tickets = [\<lparr>ticket_pk = 1, ticket_row = 11, ticket_seat = 16,
                  ticket_movie_session = 1, ticket_order = 1\<rparr>]\<rparr>"

section \<open>Auxiliary facts\<close>

lemma fresh_pk_notin: "fresh_pk ks \<notin> set ks"
proof -
  have "k \<in> set ks \<Longrightarrow> k \<le> foldr max ks 0" for k
    by (induction ks) auto
  then show ?thesis unfolding fresh_pk_def by fastforce
qed

lemma Ticket_objects_filter_exists_iff:
  "Ticket_objects_filter_exists d s r c \<longleftrightarrow>
     (\<exists>t \<in> set (tickets d). ticket_movie_session t = session_pk s
                               \<and> ticket_row t = r \<and> ticket_seat t = c)"
  by (simp add: Ticket_objects_filter_exists_def list_ex_iff)

subsection \<open>The loop of create\<close>

lemma create_tickets_frame:
  "create_tickets accepts d ord tds = (d', r) \<Longrightarrow>
     sessions d' = sessions d \<and> orders d' = orders d"
  by (induction tds arbitrary: d)
     (auto simp: Ticket_objects_create_def Let_def split: option.splits if_splits)

lemma create_tickets_Inr:
  "create_tickets accepts d ord tds = (d', Inr u) \<Longrightarrow>
     \<exists>new. tickets d' = tickets d @ new \<and>
       map (\<lambda>t. (ticket_row t, ticket_seat t, ticket_movie_session t, ticket_order t)) new =
       map (\<lambda>a. (row a, seat a, session_pk (movie_session a), order_pk ord)) tds"
proof (induction tds arbitrary: d)
  case Nil
  then show ?case by simp
next
  case (Cons a tds)
  then show ?case
    by (fastforce simp: Ticket_objects_create_def Let_def split: option.splits if_splits)
qed

lemma create_tickets_Inl:
  "create_tickets accepts d ord tds = (d', Inl e) \<Longrightarrow>
     \<exists>new k. k < length tds \<and> tickets d' = tickets d @ new \<and>
       map (\<lambda>t. (ticket_row t, ticket_seat t, ticket_movie_session t, ticket_order t)) new =
       map (\<lambda>a. (row a, seat a, session_pk (movie_session a), order_pk ord)) (take k tds)"
proof (induction tds arbitrary: d)
  case Nil
  then show ?case by simp
next
  case (Cons a tds)
  show ?case
  proof (cases "Ticket_objects_create accepts d ord a")
    case None
    with Cons.prems have "d' = d" by simp
    then show ?thesis by (intro exI[of _ "[]"] exI[of _ 0]) simp
  next
    case (Some d1)
    with Cons.prems have "create_tickets accepts d1 ord tds = (d', Inl e)" by simp
    from Cons.IH[OF this] obtain new k where
      k: "k < length tds" and t: "tickets d' = tickets d1 @ new" and
      m: "map (\<lambda>t. (ticket_row t, ticket_seat t, ticket_movie_session t, ticket_order t)) new =
          map (\<lambda>a. (row a, seat a, session_pk (movie_session a), order_pk ord)) (take k tds)"
      by blast
    from Some obtain t where d1: "tickets d1 = tickets d @ [t]" and
      tc: "(ticket_row t, ticket_seat t, ticket_movie_session t, ticket_order t)
             = (row a, seat a, session_pk (movie_session a), order_pk ord)"
      by (auto simp: Ticket_objects_create_def Let_def split: if_splits)
    show ?thesis
      using k t m d1 tc
      by (intro exI[of _ "t # new"] exI[of _ "Suc k"]) simp
  qed
qed

lemma create_Inr:
  assumes "create accepts now d tds = (d', Inr ord)"
  shows "ord = \<lparr>order_pk = fresh_pk (map order_pk (orders d)), created_at = now\<rparr>
       \<and> sessions d' = sessions d \<and> orders d' = orders d @ [ord]
       \<and> (\<exists>new. tickets d' = tickets d @ new \<and>
            map (\<lambda>t. (ticket_row t, ticket_seat t, ticket_movie_session t, ticket_order t)) new =
            map (\<lambda>a. (row a, seat a, session_pk (movie_session a), order_pk ord)) tds)"
proof -
  define o1 where "o1 = \<lparr>order_pk = fresh_pk (map order_pk (orders d)), created_at = now\<rparr>"
  define d1 where "d1 = d\<lparr>orders := orders d @ [o1]\<rparr>"
  from assms have ord: "ord = o1" and ct: "create_tickets accepts d1 o1 tds = (d', Inr ())"
    by (auto simp: create_def Order_objects_create_def Let_def o1_def d1_def
             split: prod.splits sum.splits)
  from create_tickets_frame[OF ct] create_tickets_Inr[OF ct] show ?thesis
    by (simp add: ord d1_def o1_def)
qed

lemma create_Inl:
  assumes "create accepts now d tds = (d', Inl e)"
  shows "\<exists>ord new k. k < length tds
       \<and> ord = \<lparr>order_pk = fresh_pk (map order_pk (orders d)), created_at = now\<rparr>
       \<and> sessions d' = sessions d \<and> orders d' = orders d @ [ord]
       \<and> tickets d' = tickets d @ new \<and>
            map (\<lambda>t. (ticket_row t, ticket_seat t, ticket_movie_session t, ticket_order t)) new =
            map (\<lambda>a. (row a, seat a, session_pk (movie_session a), order_pk ord)) (take k tds)"
proof -
  define o1 where "o1 = \<lparr>order_pk = fresh_pk (map order_pk (orders d)), created_at = now\<rparr>"
  define d1 where "d1 = d\<lparr>orders := orders d @ [o1]\<rparr>"
  from assms have ct: "create_tickets accepts d1 o1 tds = (d', Inl e)"
    by (auto simp: create_def Order_objects_create_def Let_def o1_def d1_def
             split: prod.splits sum.splits)
  from create_tickets_frame[OF ct] create_tickets_Inl[OF ct] show ?thesis
    by (auto simp: d1_def o1_def)
qed

lemma new_tickets_of_session:
  assumes "map (\<lambda>t. (ticket_row t, ticket_seat t, ticket_movie_session t, ticket_order t)) new =
           map (\<lambda>a. (row a, seat a, session_pk (movie_session a), k)) tds"
    and "\<forall>a \<in> set tds. session_pk (movie_session a) = p"
  shows "length (filter (\<lambda>t. ticket_movie_session t = p) new) = length tds"
  using assms
proof (induction new arbitrary: tds)
  case Nil
  then show ?case by simp
next
  case (Cons t new)
  then show ?case by (cases tds) auto
qed

subsection \<open>Validation of a batch\<close>

lemma many_results_Inr:
  "\<not> list_ex (\<lambda>e. e \<noteq> None) (map (case_sum Some (\<lambda>a. None)) results) \<Longrightarrow>
     map Inr (List.map_filter (case_sum (\<lambda>e. None) Some) results) = results"
  by (induction results) (auto simp: List.map_filter_simps split: sum.splits)

lemma many_run_validation_Inr:
  "many_run_validation d rqs = Inr ret \<Longrightarrow> map Inr ret = map (run_validation d) rqs"
  by (auto simp: many_run_validation_def Let_def many_results_Inr split: if_splits)

lemma many_run_validation_Inl:
  "many_run_validation d rqs = Inl errors \<Longrightarrow>
     errors = map (case_sum Some (\<lambda>a. None)) (map (run_validation d) rqs)"
  by (auto simp: many_run_validation_def Let_def split: if_splits)

lemma many_run_validation_fails:
  "rq \<in> set rqs \<Longrightarrow> run_validation d rq = Inl e \<Longrightarrow>
     \<exists>errors. many_run_validation d rqs = Inl errors"
  by (force simp: many_run_validation_def Let_def list_ex_iff split: sum.splits)

lemma run_validation_Inr:
  "run_validation d rq = Inr a \<Longrightarrow>
     row a = req_row rq \<and> seat a = req_seat rq
     \<and> session_pk (movie_session a) = req_movie_session rq"
  by (auto simp: run_validation_def to_internal_value_def TicketCreateSerializer_validate_def
           split: option.splits if_splits dest: find_Some_iff[THEN iffD1])

lemma validated_columns:
  "map Inr validated = map (run_validation d) rqs \<Longrightarrow>
     map (\<lambda>a. (row a, seat a, session_pk (movie_session a), k)) validated =
     map (\<lambda>rq. (req_row rq, req_seat rq, req_movie_session rq, k)) rqs"
proof (induction validated arbitrary: rqs)
  case Nil
  then show ?case by simp
next
  case (Cons a validated)
  then obtain rq rest where rqs: "rqs = rq # rest" by (cases rqs) auto
  with Cons.prems have h: "run_validation d rq = Inr a"
    and t: "map Inr validated = map (run_validation d) rest" by auto
  from run_validation_Inr[OF h] Cons.IH[OF t] rqs show ?case by simp
qed

subsection \<open>The outcomes of a request\<close>

lemma createOrder_Invalid:
  "many_run_validation d rqs = Inl errors \<Longrightarrow>
     createOrder accepts now d rqs = (d, Inl (Invalid errors))"
  by (simp add: createOrder_def)

lemma createOrder_cases:
  "createOrder accepts now d rqs = (d', res) \<Longrightarrow>
     (\<exists>errors. many_run_validation d rqs = Inl errors \<and> d' = d \<and> res = Inl (Invalid errors))
     \<or> (\<exists>validated. many_run_validation d rqs = Inr validated \<and>
           ((\<exists>e. create accepts now d validated = (d', Inl e) \<and> res = Inl (WriteFailed e))
            \<or> (\<exists>ord. create accepts now d validated = (d', Inr ord) \<and> res = Inr ord)))"
  by (auto simp: createOrder_def split: sum.splits prod.splits)

section \<open>Range checks of validate\<close>

text \<open>
  Claim C3 as it is written fails on a request whose row and seat are both out of
  range: the row is checked first and its error is raised at once, so row 0 and seat 0
  in the 10 by 15 hall yield the error keyed \<^verbatim>\<open>row\<close>, not the one keyed \<^verbatim>\<open>seat\<close>,
  although seat 0 is outside the range of seats.
\<close>

theorem validate_row_error_hides_seat_error:
  "(0::int) \<notin> {1..seats_in_row (cinema_hall session1)}
   \<and> TicketCreateSerializer_validate empty_db \<lparr>row = 0, seat = 0, movie_session = session1\<rparr>
       = Inl OutOfRange_row
   \<and> TicketCreateSerializer_validate empty_db \<lparr>row = 0, seat = 0, movie_session = session1\<rparr>
       \<noteq> Inl OutOfRange_seat"
  by (simp add: TicketCreateSerializer_validate_def session1_def hall_10x15_def)

text \<open>
  C3, amended. On every persisted state, \<^verbatim>\<open>validate\<close> fails with an out-of-range
  error exactly when the row is outside 1 to \<^verbatim>\<open>hall.rows\<close> or the seat is outside 1 to
  \<^verbatim>\<open>hall.seats_in_row\<close>. Every row outside its range yields the error keyed
  \<^verbatim>\<open>row\<close>; every seat outside its range yields the error keyed \<^verbatim>\<open>seat\<close> when the
  row is in range. In a hall with at least one row and one seat per row, the boundary
  values 1 and the maximum pass the range checks.
\<close>

theorem validate_out_of_range:
  "((TicketCreateSerializer_validate d \<lparr>row = r, seat = c, movie_session = s\<rparr> = Inl OutOfRange_row
      \<or> TicketCreateSerializer_validate d \<lparr>row = r, seat = c, movie_session = s\<rparr> = Inl OutOfRange_seat)
     \<longleftrightarrow> (r \<notin> {1..rows (cinema_hall s)} \<or> c \<notin> {1..seats_in_row (cinema_hall s)}))
   \<and> (r \<notin> {1..rows (cinema_hall s)} \<longrightarrow>
        TicketCreateSerializer_validate d \<lparr>row = r, seat = c, movie_session = s\<rparr>
          = Inl OutOfRange_row)
   \<and> (r \<in> {1..rows (cinema_hall s)} \<and> c \<notin> {1..seats_in_row (cinema_hall s)} \<longrightarrow>
        TicketCreateSerializer_validate d \<lparr>row = r, seat = c, movie_session = s\<rparr>
          = Inl OutOfRange_seat)
   \<and> (1 \<le> rows (cinema_hall s) \<and> 1 \<le> seats_in_row (cinema_hall s)
        \<and> (r = 1 \<or> r = rows (cinema_hall s)) \<and> (c = 1 \<or> c = seats_in_row (cinema_hall s)) \<longrightarrow>
        TicketCreateSerializer_validate d \<lparr>row = r, seat = c, movie_session = s\<rparr>
          \<noteq> Inl OutOfRange_row
        \<and> TicketCreateSerializer_validate d \<lparr>row = r, seat = c, movie_session = s\<rparr>
          \<noteq> Inl OutOfRange_seat)"
  by (auto simp: TicketCreateSerializer_validate_def)

text \<open>
  In the 10 by 15 hall: row 11 is rejected, seat 16 of row 5 is rejected, and the
  corners (10, 15) and (1, 1) pass the range checks.
\<close>

theorem validate_out_of_range_witness:
  "TicketCreateSerializer_validate one_ticket_db (attrs_at 11 5) = Inl OutOfRange_row
   \<and> TicketCreateSerializer_validate one_ticket_db (attrs_at 5 16) = Inl OutOfRange_seat
   \<and> TicketCreateSerializer_validate one_ticket_db (attrs_at 10 15) \<noteq> Inl OutOfRange_row
   \<and> TicketCreateSerializer_validate one_ticket_db (attrs_at 10 15) \<noteq> Inl OutOfRange_seat
   \<and> TicketCreateSerializer_validate one_ticket_db (attrs_at 1 1) \<noteq> Inl OutOfRange_row
   \<and> TicketCreateSerializer_validate one_ticket_db (attrs_at 1 1) \<noteq> Inl OutOfRange_seat"
  using validate_out_of_range [of one_ticket_db 11 5 session1]
        validate_out_of_range [of one_ticket_db 5 16 session1]
        validate_out_of_range [of one_ticket_db 10 15 session1]
        validate_out_of_range [of one_ticket_db 1 1 session1]
  by (simp add: attrs_at_def session1_def hall_10x15_def)

section \<open>The seat-taken check of validate\<close>

text \<open>
  C4. For every session and every in-range row and seat: when some persisted ticket of
  that session has exactly this row and seat, \<^verbatim>\<open>validate\<close> fails with the seat-taken
  error; when none has, \<^verbatim>\<open>validate\<close> succeeds and returns the attributes.
\<close>

theorem validate_seat_taken:
  assumes "r \<in> {1..rows (cinema_hall s)}" and "c \<in> {1..seats_in_row (cinema_hall s)}"
  shows "((\<exists>t \<in> set (tickets d). ticket_movie_session t = session_pk s
                 \<and> ticket_row t = r \<and> ticket_seat t = c) \<longrightarrow>
            TicketCreateSerializer_validate d \<lparr>row = r, seat = c, movie_session = s\<rparr>
              = Inl SeatTaken)
       \<and> (\<not> (\<exists>t \<in> set (tickets d). ticket_movie_session t = session_pk s
                 \<and> ticket_row t = r \<and> ticket_seat t = c) \<longrightarrow>
            TicketCreateSerializer_validate d \<lparr>row = r, seat = c, movie_session = s\<rparr>
              = Inr \<lparr>row = r, seat = c, movie_session = s\<rparr>)"
  using assms
  by (auto simp: TicketCreateSerializer_validate_def Ticket_objects_filter_exists_iff)

text \<open>
  With the ticket for (5, 5) persisted, a second request for (5, 5) is refused and one
  for (5, 6) passes.
\<close>

theorem validate_seat_taken_witness:
  "TicketCreateSerializer_validate one_ticket_db (attrs_at 5 5) = Inl SeatTaken
   \<and> TicketCreateSerializer_validate one_ticket_db (attrs_at 5 6) = Inr (attrs_at 5 6)"
  using validate_seat_taken [of 5 session1 5 one_ticket_db]
        validate_seat_taken [of 5 session1 6 one_ticket_db]
  by (simp add: attrs_at_def session1_def hall_10x15_def one_ticket_db_def)

section \<open>The order of the checks\<close>

text \<open>
  C5. The range checks come before the seat-taken check: whenever the row or the seat
  is out of range the result is an out-of-range error, whatever tickets are persisted
  (so also when the seat is taken), the row error taking precedence; and the seat-taken
  error is returned only for in-range coordinates of a seat that is taken.
\<close>

theorem validate_check_order:
  "(r \<notin> {1..rows (cinema_hall s)} \<or> c \<notin> {1..seats_in_row (cinema_hall s)} \<longrightarrow>
      TicketCreateSerializer_validate d \<lparr>row = r, seat = c, movie_session = s\<rparr> = Inl OutOfRange_row
      \<or> TicketCreateSerializer_validate d \<lparr>row = r, seat = c, movie_session = s\<rparr> = Inl OutOfRange_seat)
   \<and> (r \<notin> {1..rows (cinema_hall s)} \<longrightarrow>
      TicketCreateSerializer_validate d \<lparr>row = r, seat = c, movie_session = s\<rparr> = Inl OutOfRange_row)
   \<and> (TicketCreateSerializer_validate d \<lparr>row = r, seat = c, movie_session = s\<rparr> = Inl SeatTaken \<longrightarrow>
      r \<in> {1..rows (cinema_hall s)} \<and> c \<in> {1..seats_in_row (cinema_hall s)}
      \<and> Ticket_objects_filter_exists d s r c)"
  by (auto simp: TicketCreateSerializer_validate_def)

text \<open>
  A ticket at row 11 and seat 16 is persisted. A request for that very seat gets the
  row error, a request for row 5 and seat 16 gets the seat error, and the taken seat
  (5, 5) of the other state is in range.
\<close>

theorem validate_check_order_witness:
  "Ticket_objects_filter_exists stray_ticket_db session1 11 16
   \<and> TicketCreateSerializer_validate stray_ticket_db (attrs_at 11 16) = Inl OutOfRange_row
   \<and> TicketCreateSerializer_validate stray_ticket_db (attrs_at 5 16) = Inl OutOfRange_seat
   \<and> TicketCreateSerializer_validate one_ticket_db (attrs_at 5 5) = Inl SeatTaken
   \<and> (5::int) \<in> {1..rows (cinema_hall session1)}
   \<and> (5::int) \<in> {1..seats_in_row (cinema_hall session1)}"
proof -
  have t: "Ticket_objects_filter_exists stray_ticket_db session1 11 16"
    by (simp add: Ticket_objects_filter_exists_def stray_ticket_db_def session1_def)
  have k: "TicketCreateSerializer_validate one_ticket_db (attrs_at 5 5) = Inl SeatTaken"
    by (simp add: TicketCreateSerializer_validate_def Ticket_objects_filter_exists_def
          attrs_at_def one_ticket_db_def session1_def hall_10x15_def)
  have o: "TicketCreateSerializer_validate stray_ticket_db (attrs_at 5 16) \<noteq> Inl OutOfRange_row"
    by (simp add: TicketCreateSerializer_validate_def attrs_at_def session1_def hall_10x15_def)
  show ?thesis
    using validate_check_order [of 11 session1 16 stray_ticket_db]
          validate_check_order [of 5 session1 16 stray_ticket_db]
          validate_check_order [of 5 session1 5 one_ticket_db] t k o
    by (simp add: attrs_at_def session1_def hall_10x15_def)
qed

section \<open>The two validation routines agree\<close>

text \<open>
  C10. \<^verbatim>\<open>TicketListSerializer.validate\<close> and \<^verbatim>\<open>TicketCreateSerializer.validate\<close>
  compute the same function: on every \<^verbatim>\<open>attrs\<close> with row, seat and movie session and
  on every persisted state, either both return the attributes unchanged or both raise
  the same validation error.
\<close>

theorem validate_routines_agree:
  "TicketListSerializer_validate d a = TicketCreateSerializer_validate d a \<and>
   (TicketCreateSerializer_validate d a = Inr a \<and> TicketListSerializer_validate d a = Inr a
    \<or> (\<exists>e. TicketCreateSerializer_validate d a = Inl e
           \<and> TicketListSerializer_validate d a = Inl e))"
  by (simp add: TicketListSerializer_validate_def TicketCreateSerializer_validate_def)

section \<open>Siblings of one batch\<close>

text \<open>
  C6. Every item of a batch is validated against the persisted tickets only, not
  against the other items: when two items of a batch ask for the same row and seat of
  the same session, the session exists, row and seat are in range and no persisted
  ticket of the session has them, then the validation of each of the two items
  succeeds, neither is reported in the errors of the batch, and the batch made of the
  two alone is accepted.
\<close>

theorem batch_siblings_both_pass:
  assumes "i < length rqs" and "j < length rqs" and "i \<noteq> j"
    and "rqs ! i = \<lparr>req_row = r, req_seat = c, req_movie_session = k\<rparr>"
    and "rqs ! j = \<lparr>req_row = r, req_seat = c, req_movie_session = k\<rparr>"
    and "find (\<lambda>x. session_pk x = k) (sessions d) = Some s"
    and "r \<in> {1..rows (cinema_hall s)}" and "c \<in> {1..seats_in_row (cinema_hall s)}"
    and "\<not> (\<exists>t \<in> set (tickets d). ticket_movie_session t = session_pk s
                 \<and> ticket_row t = r \<and> ticket_seat t = c)"
  shows "run_validation d (rqs ! i) = Inr \<lparr>row = r, seat = c, movie_session = s\<rparr>
       \<and> run_validation d (rqs ! j) = Inr \<lparr>row = r, seat = c, movie_session = s\<rparr>
       \<and> (\<forall>errors. many_run_validation d rqs = Inl errors \<longrightarrow>
             errors ! i = None \<and> errors ! j = None)
       \<and> many_run_validation d [rqs ! i, rqs ! j]
           = Inr [\<lparr>row = r, seat = c, movie_session = s\<rparr>,
                  \<lparr>row = r, seat = c, movie_session = s\<rparr>]"
proof -
  have free: "\<not> Ticket_objects_filter_exists d s r c"
    using assms(9) by (simp add: Ticket_objects_filter_exists_iff)
  have one: "run_validation d \<lparr>req_row = r, req_seat = c, req_movie_session = k\<rparr>
               = Inr \<lparr>row = r, seat = c, movie_session = s\<rparr>"
    using assms(6-8) free
    by (simp add: run_validation_def to_internal_value_def TicketCreateSerializer_validate_def)
  have errs: "errors ! i = None \<and> errors ! j = None"
    if "many_run_validation d rqs = Inl errors" for errors
    using many_run_validation_Inl[OF that] assms(1,2,4,5) one by simp
  have two: "many_run_validation d [rqs ! i, rqs ! j]
           = Inr [\<lparr>row = r, seat = c, movie_session = s\<rparr>,
                  \<lparr>row = r, seat = c, movie_session = s\<rparr>]"
    using one assms(4,5) by (simp add: many_run_validation_def List.map_filter_simps)
  show ?thesis using one errs two assms(4,5) by simp
qed

text \<open>
  On the empty session, the first and the third item of a batch of three both ask for
  (5, 5): both pass, and the batch of the two is accepted.
\<close>

theorem batch_siblings_both_pass_witness:
  "run_validation empty_db ([request_at 5 5, request_at 1 1, request_at 5 5] ! 0)
     = Inr (attrs_at 5 5)
   \<and> run_validation empty_db ([request_at 5 5, request_at 1 1, request_at 5 5] ! 2)
     = Inr (attrs_at 5 5)
   \<and> many_run_validation empty_db [request_at 5 5, request_at 5 5]
     = Inr [attrs_at 5 5, attrs_at 5 5]"
  using batch_siblings_both_pass
          [of 0 "[request_at 5 5, request_at 1 1, request_at 5 5]" 2 5 5 1 empty_db session1]
  by (simp add: request_at_def attrs_at_def empty_db_def session1_def hall_10x15_def)

section \<open>Derived reads\<close>

text \<open>
  C7. For every session and every persisted state, \<^verbatim>\<open>get_tickets_available\<close> is the
  capacity of the session's hall minus the number of persisted tickets of the session,
  computed from the state it is called on. After \<^verbatim>\<open>create\<close> has written k tickets,
  all for this session, the value has dropped by k; for a session that had no ticket
  it is the capacity minus k.
\<close>

theorem tickets_available_count:
  "get_tickets_available d obj =
     capacity (cinema_hall obj)
       - int (length (filter (\<lambda>t. ticket_movie_session t = session_pk obj) (tickets d)))
   \<and> (create accepts now d tds = (d', Inr ord)
        \<and> (\<forall>a \<in> set tds. session_pk (movie_session a) = session_pk obj) \<longrightarrow>
        get_tickets_available d' obj = get_tickets_available d obj - int (length tds))
   \<and> (create accepts now d tds = (d', Inr ord)
        \<and> (\<forall>a \<in> set tds. session_pk (movie_session a) = session_pk obj)
        \<and> obj_tickets d obj = [] \<longrightarrow>
        get_tickets_available d' obj = capacity (cinema_hall obj) - int (length tds))"
proof -
  have step: "get_tickets_available d' obj = get_tickets_available d obj - int (length tds)"
    if c: "create accepts now d tds = (d', Inr ord)"
      and s: "\<forall>a \<in> set tds. session_pk (movie_session a) = session_pk obj"
  proof -
    from create_Inr[OF c] obtain new where
      t: "tickets d' = tickets d @ new" and
      m: "map (\<lambda>t. (ticket_row t, ticket_seat t, ticket_movie_session t, ticket_order t)) new =
          map (\<lambda>a. (row a, seat a, session_pk (movie_session a), order_pk ord)) tds"
      by blast
    from new_tickets_of_session[OF m s] t show ?thesis
      by (simp add: get_tickets_available_def obj_tickets_def)
  qed
  have empty: "get_tickets_available d obj = capacity (cinema_hall obj)"
    if "obj_tickets d obj = []"
    using that by (simp add: get_tickets_available_def)
  show ?thesis
    using step empty by (simp add: get_tickets_available_def obj_tickets_def)
qed

text \<open>
  The scenario of the specification: 150 seats are available in the empty session, and
  149 after an order with the one ticket (5, 5).
\<close>

theorem tickets_available_count_witness:
  "get_tickets_available empty_db session1 = 150
   \<and> create unique_seat 0 empty_db [attrs_at 5 5] = (one_ticket_db, Inr \<lparr>order_pk = 1, created_at = 0\<rparr>)
   \<and> get_tickets_available one_ticket_db session1 = 149"
proof -
  have c: "create unique_seat 0 empty_db [attrs_at 5 5]
             = (one_ticket_db, Inr \<lparr>order_pk = 1, created_at = 0\<rparr>)"
    by code_simp
  have e: "obj_tickets empty_db session1 = []"
    by (simp add: obj_tickets_def empty_db_def)
  have k: "capacity (cinema_hall session1) = 150"
    by (simp add: capacity_def session1_def hall_10x15_def)
  have a: "\<forall>a \<in> set [attrs_at 5 5]. session_pk (movie_session a) = session_pk session1"
    by (simp add: attrs_at_def)
  show ?thesis
    using tickets_available_count [of empty_db session1 unique_seat 0 "[attrs_at 5 5]"
            one_ticket_db "\<lparr>order_pk = 1, created_at = 0\<rparr>"] c e k a
    by (simp add: empty_db_def)
qed

text \<open>
  C8. For every session and every persisted state, the places returned by
  \<^verbatim>\<open>get_taken_places\<close> are exactly the (row, seat) pairs of the persisted tickets of
  the session: every ticket of the session contributes its pair, and no other pair
  appears.
\<close>

theorem taken_places_exact:
  "set (get_taken_places d obj) =
     {(ticket_row t, ticket_seat t) | t.
        t \<in> set (tickets d) \<and> ticket_movie_session t = session_pk obj}"
  by (auto simp: get_taken_places_def obj_tickets_def)

section \<open>Rows persisted by an order creation request\<close>

text \<open>
  Claim C9 as it is written fails where it says that a failed request persists no row.
  Three requests for (1, 1), (2, 2) and (1, 1) again pass validation on the empty
  session; under the uniqueness constraint the third write is rejected, and the order
  and the first two tickets stay persisted.
\<close>

theorem createOrder_failure_leaves_rows:
  "many_run_validation empty_db [request_at 1 1, request_at 2 2, request_at 1 1]
     = Inr [attrs_at 1 1, attrs_at 2 2, attrs_at 1 1]
   \<and> create unique_seat 0 empty_db [attrs_at 1 1, attrs_at 2 2, attrs_at 1 1]
     = (two_ticket_db, Inl IntegrityError)
   \<and> createOrder unique_seat 0 empty_db [request_at 1 1, request_at 2 2, request_at 1 1]
     = (two_ticket_db, Inl (WriteFailed IntegrityError))
   \<and> length (orders two_ticket_db) = 1 \<and> length (tickets two_ticket_db) = 2
   \<and> orders empty_db = [] \<and> tickets empty_db = []"
  by code_simp

text \<open>
  C9, amended. When \<^verbatim>\<open>createOrder\<close> succeeds on n ticket requests, exactly one new
  order, with a primary key no earlier order has, and exactly n new tickets are
  persisted; the i-th new ticket points to that order and carries the row, seat and
  session of the i-th request; the sessions, the earlier orders and the earlier tickets
  are as they were. When the batch fails validation, no row is persisted.
\<close>

theorem createOrder_rows_persisted:
  "(createOrder accepts now d rqs = (d', Inr ord) \<longrightarrow>
      sessions d' = sessions d
      \<and> orders d' = orders d @ [ord]
      \<and> order_pk ord \<notin> set (map order_pk (orders d))
      \<and> length (tickets d') = length (tickets d) + length rqs
      \<and> take (length (tickets d)) (tickets d') = tickets d
      \<and> map (\<lambda>t. (ticket_row t, ticket_seat t, ticket_movie_session t, ticket_order t))
           (drop (length (tickets d)) (tickets d'))
        = map (\<lambda>rq. (req_row rq, req_seat rq, req_movie_session rq, order_pk ord)) rqs)
   \<and> (createOrder accepts now d rqs = (d', Inl (Invalid errors)) \<longrightarrow> d' = d)"
proof (intro conjI impI)
  assume f: "createOrder accepts now d rqs = (d', Inl (Invalid errors))"
  from createOrder_cases[OF f] show "d' = d" by auto
next
  assume f: "createOrder accepts now d rqs = (d', Inr ord)"
  from createOrder_cases[OF f] obtain validated where
    v: "many_run_validation d rqs = Inr validated" and
    c: "create accepts now d validated = (d', Inr ord)" by auto
  from create_Inr[OF c] obtain new where
    p: "ord = \<lparr>order_pk = fresh_pk (map order_pk (orders d)), created_at = now\<rparr>" and
    s: "sessions d' = sessions d" and
    o: "orders d' = orders d @ [ord]" and
    t: "tickets d' = tickets d @ new" and
    m: "map (\<lambda>t. (ticket_row t, ticket_seat t, ticket_movie_session t, ticket_order t)) new =
        map (\<lambda>a. (row a, seat a, session_pk (movie_session a), order_pk ord)) validated"
    by auto
  have eq: "map Inr validated = map (run_validation d) rqs"
    by (rule many_run_validation_Inr[OF v])
  note cols = validated_columns[OF eq, of "order_pk ord"]
  have ln: "length new = length rqs"
    using arg_cong[OF m, of length] arg_cong[OF cols, of length] by simp
  show "sessions d' = sessions d" by (rule s)
  show "orders d' = orders d @ [ord]" by (rule o)
  show "order_pk ord \<notin> set (map order_pk (orders d))"
    using fresh_pk_notin[of "map order_pk (orders d)"] by (simp add: p)
  show "length (tickets d') = length (tickets d) + length rqs"
    using t ln by simp
  show "take (length (tickets d)) (tickets d') = tickets d"
    using t by simp
  show "map (\<lambda>t. (ticket_row t, ticket_seat t, ticket_movie_session t, ticket_order t))
           (drop (length (tickets d)) (tickets d'))
        = map (\<lambda>rq. (req_row rq, req_seat rq, req_movie_session rq, order_pk ord)) rqs"
    using t m cols by simp
qed

text \<open>
  An order for (1, 1) and (2, 2) on the empty session persists one order and the two
  tickets; a batch whose second item asks for the taken seat (5, 5) persists nothing.
\<close>

theorem createOrder_rows_persisted_witness:
  "createOrder unique_seat 0 empty_db [request_at 1 1, request_at 2 2]
     = (two_ticket_db, Inr \<lparr>order_pk = 1, created_at = 0\<rparr>)
   \<and> orders two_ticket_db = orders empty_db @ [\<lparr>order_pk = 1, created_at = 0\<rparr>]
   \<and> length (tickets two_ticket_db) = length (tickets empty_db) + 2
   \<and> map (\<lambda>t. (ticket_row t, ticket_seat t, ticket_movie_session t, ticket_order t))
        (drop (length (tickets empty_db)) (tickets two_ticket_db))
      = [(1, 1, 1, 1), (2, 2, 1, 1)]
   \<and> createOrder unique_seat 0 one_ticket_db [request_at 4 4, request_at 5 5]
     = (one_ticket_db, Inl (Invalid [None, Some SeatTaken]))"
proof -
  have a: "createOrder unique_seat 0 empty_db [request_at 1 1, request_at 2 2]
     = (two_ticket_db, Inr \<lparr>order_pk = 1, created_at = 0\<rparr>)"
    by code_simp
  have b: "createOrder unique_seat 0 one_ticket_db [request_at 4 4, request_at 5 5]
     = (one_ticket_db, Inl (Invalid [None, Some SeatTaken]))"
    by code_simp
  from createOrder_rows_persisted
         [of unique_seat 0 empty_db "[request_at 1 1, request_at 2 2]" two_ticket_db
             "\<lparr>order_pk = 1, created_at = 0\<rparr>"] a
  have c: "orders two_ticket_db = orders empty_db @ [\<lparr>order_pk = 1, created_at = 0\<rparr>]
   \<and> length (tickets two_ticket_db) = length (tickets empty_db) + 2
   \<and> map (\<lambda>t. (ticket_row t, ticket_seat t, ticket_movie_session t, ticket_order t))
        (drop (length (tickets empty_db)) (tickets two_ticket_db))
      = [(1, 1, 1, 1), (2, 2, 1, 1)]"
    by (simp add: request_at_def)
  from a b c show ?thesis by simp
qed

section \<open>Failure of an order creation request\<close>

text \<open>
  Claim C1 as it is written fails for a ticket write failure. Two requests for the
  same free seat (5, 5) both pass validation; \<^verbatim>\<open>create\<close> persists the order and the
  first ticket, the second write is rejected by the uniqueness constraint, and nothing
  is rolled back: the state after the failed request is not the state before it.
\<close>

theorem createOrder_write_failure_not_rolled_back:
  "many_run_validation empty_db [request_at 5 5, request_at 5 5]
     = Inr [attrs_at 5 5, attrs_at 5 5]
   \<and> create unique_seat 0 empty_db [attrs_at 5 5, attrs_at 5 5]
     = (one_ticket_db, Inl IntegrityError)
   \<and> createOrder unique_seat 0 empty_db [request_at 5 5, request_at 5 5]
     = (one_ticket_db, Inl (WriteFailed IntegrityError))
   \<and> one_ticket_db \<noteq> empty_db
   \<and> length (orders one_ticket_db) = 1 \<and> length (tickets one_ticket_db) = 1"
  by code_simp

text \<open>
  C1, amended. Order creation is all-or-nothing with respect to validation: if any
  ticket request of the batch fails validation, the request fails and the persisted
  state after it equals the state before it, so no order and no ticket is persisted.
  A ticket write failure inside \<^verbatim>\<open>create\<close> is not rolled back: the new order and
  the tickets written before the failing one, fewer than the batch holds, stay
  persisted.
\<close>

theorem createOrder_failure_persistence:
  "((\<exists>rq \<in> set rqs. isl (run_validation d rq)) \<longrightarrow>
      (\<exists>errors. createOrder accepts now d rqs = (d, Inl (Invalid errors))))
   \<and> (createOrder accepts now d rqs = (d', Inl (WriteFailed e)) \<longrightarrow>
       sessions d' = sessions d
       \<and> orders d' = orders d @ [\<lparr>order_pk = fresh_pk (map order_pk (orders d)), created_at = now\<rparr>]
       \<and> (\<exists>k < length rqs.
            length (tickets d') = length (tickets d) + k
            \<and> take (length (tickets d)) (tickets d') = tickets d
            \<and> map (\<lambda>t. (ticket_row t, ticket_seat t, ticket_movie_session t, ticket_order t))
                 (drop (length (tickets d)) (tickets d'))
              = map (\<lambda>rq. (req_row rq, req_seat rq, req_movie_session rq,
                            fresh_pk (map order_pk (orders d)))) (take k rqs)))"
proof (intro conjI impI)
  assume "\<exists>rq \<in> set rqs. isl (run_validation d rq)"
  then obtain rq e where "rq \<in> set rqs" and "run_validation d rq = Inl e"
    by (auto simp: isl_def)
  from many_run_validation_fails[OF this] obtain errors
    where "many_run_validation d rqs = Inl errors" by blast
  from createOrder_Invalid[OF this]
  show "\<exists>errors. createOrder accepts now d rqs = (d, Inl (Invalid errors))" by blast
next
  assume f: "createOrder accepts now d rqs = (d', Inl (WriteFailed e))"
  from createOrder_cases[OF f] obtain validated where
    v: "many_run_validation d rqs = Inr validated" and
    c: "create accepts now d validated = (d', Inl e)" by auto
  from create_Inl[OF c] obtain new k where
    k: "k < length validated" and
    s: "sessions d' = sessions d" and
    o: "orders d' = orders d @ [\<lparr>order_pk = fresh_pk (map order_pk (orders d)), created_at = now\<rparr>]" and
    t: "tickets d' = tickets d @ new" and
    m: "map (\<lambda>t. (ticket_row t, ticket_seat t, ticket_movie_session t, ticket_order t)) new =
        map (\<lambda>a. (row a, seat a, session_pk (movie_session a),
                  fresh_pk (map order_pk (orders d)))) (take k validated)"
    by auto
  have eq: "map Inr validated = map (run_validation d) rqs"
    by (rule many_run_validation_Inr[OF v])
  then have len: "length validated = length rqs"
    by (metis length_map)
  from validated_columns[OF eq, of "fresh_pk (map order_pk (orders d))"]
  have cols: "map (\<lambda>a. (row a, seat a, session_pk (movie_session a),
                  fresh_pk (map order_pk (orders d)))) (take k validated)
       = map (\<lambda>rq. (req_row rq, req_seat rq, req_movie_session rq,
                            fresh_pk (map order_pk (orders d)))) (take k rqs)"
    by (simp add: take_map[symmetric])
  have ln: "length new = k"
    using arg_cong[OF m, of length] k by simp
  show "sessions d' = sessions d" by (rule s)
  show "orders d' = orders d @ [\<lparr>order_pk = fresh_pk (map order_pk (orders d)), created_at = now\<rparr>]"
    by (rule o)
  show "\<exists>k < length rqs.
            length (tickets d') = length (tickets d) + k
            \<and> take (length (tickets d)) (tickets d') = tickets d
            \<and> map (\<lambda>t. (ticket_row t, ticket_seat t, ticket_movie_session t, ticket_order t))
                 (drop (length (tickets d)) (tickets d'))
              = map (\<lambda>rq. (req_row rq, req_seat rq, req_movie_session rq,
                            fresh_pk (map order_pk (orders d)))) (take k rqs)"
    using k len t m cols ln by (intro exI[of _ k]) simp
qed

text \<open>
  A batch whose third item asks for row 11 of the 10-row hall leaves the empty state
  as it is; the batch that asks for (5, 5) twice ends in a write failure with one
  order and one ticket persisted.
\<close>

theorem createOrder_failure_persistence_witness:
  "(\<exists>rq \<in> set [request_at 1 1, request_at 2 2, request_at 11 1].
       isl (run_validation empty_db rq))
   \<and> fst (createOrder unique_seat 0 empty_db [request_at 1 1, request_at 2 2, request_at 11 1])
       = empty_db
   \<and> isl (snd (createOrder unique_seat 0 empty_db
                  [request_at 1 1, request_at 2 2, request_at 11 1]))
   \<and> createOrder unique_seat 0 empty_db [request_at 5 5, request_at 5 5]
       = (one_ticket_db, Inl (WriteFailed IntegrityError))
   \<and> orders one_ticket_db = orders empty_db @ [\<lparr>order_pk = 1, created_at = 0\<rparr>]
   \<and> length (tickets one_ticket_db) = length (tickets empty_db) + 1"
proof -
  have v: "\<exists>rq \<in> set [request_at 1 1, request_at 2 2, request_at 11 1].
             isl (run_validation empty_db rq)"
    by (simp add: run_validation_def to_internal_value_def TicketCreateSerializer_validate_def
          request_at_def empty_db_def session1_def hall_10x15_def)
  have w: "createOrder unique_seat 0 empty_db [request_at 5 5, request_at 5 5]
             = (one_ticket_db, Inl (WriteFailed IntegrityError))"
    by code_simp
  have f: "fresh_pk (map order_pk (orders empty_db)) = 1"
    by (simp add: fresh_pk_def empty_db_def)
  from createOrder_failure_persistence
         [of "[request_at 1 1, request_at 2 2, request_at 11 1]" empty_db unique_seat 0
             one_ticket_db IntegrityError] v
  have a: "fst (createOrder unique_seat 0 empty_db [request_at 1 1, request_at 2 2, request_at 11 1])
             = empty_db
   \<and> isl (snd (createOrder unique_seat 0 empty_db
                  [request_at 1 1, request_at 2 2, request_at 11 1]))"
    by auto
  from createOrder_failure_persistence
         [of "[request_at 5 5, request_at 5 5]" empty_db unique_seat 0
             one_ticket_db IntegrityError] w f
  have b: "orders one_ticket_db = orders empty_db @ [\<lparr>order_pk = 1, created_at = 0\<rparr>]
   \<and> length (tickets one_ticket_db) = length (tickets empty_db) + 1"
    by (auto simp: one_ticket_db_def empty_db_def)
  from v a w b show ?thesis by simp
qed

section \<open>The empty batch\<close>

text \<open>
  Claim C2 as it is written fails: the empty list of ticket requests passes
  validation, and \<^verbatim>\<open>create\<close> persists an order with no ticket.
\<close>

theorem createOrder_accepts_empty_batch:
  "many_run_validation empty_db [] = Inr []
   \<and> create unique_seat 0 empty_db []
       = (empty_db\<lparr>orders := [\<lparr>order_pk = 1, created_at = 0\<rparr>]\<rparr>,
          Inr \<lparr>order_pk = 1, created_at = 0\<rparr>)
   \<and> createOrder unique_seat 0 empty_db []
       = (empty_db\<lparr>orders := [\<lparr>order_pk = 1, created_at = 0\<rparr>]\<rparr>,
          Inr \<lparr>order_pk = 1, created_at = 0\<rparr>)
   \<and> tickets (fst (createOrder unique_seat 0 empty_db [])) = []"
  by code_simp

text \<open>
  C2, amended. \<^verbatim>\<open>createOrder\<close> does not require a non-empty sequence: on the empty
  sequence of ticket requests it succeeds, whatever the persisted state and the
  constraints of the ticket table, and persists exactly one new order and no ticket.
  When every persisted ticket points to a persisted order, no ticket points to the new
  order: it owns zero tickets.
\<close>

theorem createOrder_empty_batch:
  "createOrder accepts now d [] =
     (d\<lparr>orders := orders d @ [\<lparr>order_pk = fresh_pk (map order_pk (orders d)), created_at = now\<rparr>]\<rparr>,
      Inr \<lparr>order_pk = fresh_pk (map order_pk (orders d)), created_at = now\<rparr>)
   \<and> ((\<forall>t \<in> set (tickets d). ticket_order t \<in> set (map order_pk (orders d))) \<longrightarrow>
        filter (\<lambda>t. ticket_order t = fresh_pk (map order_pk (orders d)))
          (tickets (fst (createOrder accepts now d []))) = [])"
proof -
  have e: "createOrder accepts now d [] =
     (d\<lparr>orders := orders d @ [\<lparr>order_pk = fresh_pk (map order_pk (orders d)), created_at = now\<rparr>]\<rparr>,
      Inr \<lparr>order_pk = fresh_pk (map order_pk (orders d)), created_at = now\<rparr>)"
    by (simp add: createOrder_def many_run_validation_def List.map_filter_simps create_def
          Order_objects_create_def Let_def)
  have "filter (\<lambda>t. ticket_order t = fresh_pk (map order_pk (orders d))) (tickets d) = []"
    if h: "\<forall>t \<in> set (tickets d). ticket_order t \<in> set (map order_pk (orders d))"
  proof -
    have "ticket_order t \<noteq> fresh_pk (map order_pk (orders d))" if "t \<in> set (tickets d)" for t
      using that h fresh_pk_notin[of "map order_pk (orders d)"] by metis
    then show ?thesis by (simp add: filter_empty_conv)
  qed
  with e show ?thesis by simp
qed

text \<open>
  On the state with one order and its ticket, the empty batch adds the order 2, and no
  ticket points to it.
\<close>

theorem createOrder_empty_batch_witness:
  "ticket_order ` set (tickets one_ticket_db) \<subseteq> set (map order_pk (orders one_ticket_db))
   \<and> createOrder unique_seat 3 one_ticket_db []
       = (one_ticket_db\<lparr>orders := orders one_ticket_db @ [\<lparr>order_pk = 2, created_at = 3\<rparr>]\<rparr>,
          Inr \<lparr>order_pk = 2, created_at = 3\<rparr>)
   \<and> filter (\<lambda>t. ticket_order t = 2) (tickets (fst (createOrder unique_seat 3 one_ticket_db [])))
       = []"
proof -
  have h: "\<forall>t \<in> set (tickets one_ticket_db).
             ticket_order t \<in> set (map order_pk (orders one_ticket_db))"
    by (simp add: one_ticket_db_def)
  have f: "fresh_pk (map order_pk (orders one_ticket_db)) = 2"
    by (simp add: fresh_pk_def one_ticket_db_def)
  from createOrder_empty_batch [of unique_seat 3 one_ticket_db] h f show ?thesis
    by (simp add: one_ticket_db_def)
qed

end
